theory Spec2Isabelle
  imports Complex_Main
begin

section \<open>The cost-guarded query runner (src/bq\_utils.py)\<close>

text \<open>
  The runner talks to three things outside itself: the BigQuery client, the terminal
  (\<^verbatim>\<open>input\<close>, \<^verbatim>\<open>print\<close>) and the interpreter (\<^verbatim>\<open>sys.exit\<close>). Each is made explicit:
  the client is a parameter that maps a submission and the warehouse's state to a response
  and a new state; the terminal is a list of pending input lines; every effect is appended
  to a trace, so that "submitted once" and "never prompted" are statements about the trace.

  Python floats are modelled as exact reals: rounding, infinities and NaN are outside the
  model.
\<close>

subsection \<open>Data\<close>

text \<open>\<^verbatim>\<open>bigquery.QueryJobConfig\<close>: the two properties the code sets; \<open>None\<close> is "not set".\<close>

record job_config =
  dry_run :: "bool option"
  use_query_cache :: "bool option"

text \<open>\<^verbatim>\<open>bigquery.QueryJob\<close>: the handle a submission returns. \<^verbatim>\<open>total_bytes_processed\<close>
  is \<^verbatim>\<open>None\<close> on a job that has no statistics.\<close>

record job =
  job_id :: nat
  total_bytes_processed :: "int option"

text \<open>What a call can raise: an error of the client (opaque, of type \<open>'e\<close>), the
  \<^verbatim>\<open>TypeError\<close> of dividing \<^verbatim>\<open>None\<close>, the \<^verbatim>\<open>EOFError\<close> of \<^verbatim>\<open>input\<close> at end of input.\<close>

datatype 'e exn = ClientError 'e | TypeError | EOFError

text \<open>How a call ends: it returns, an exception leaves it, or \<^verbatim>\<open>sys.exit(n)\<close> ends the
  process with status \<open>n\<close>.\<close>

datatype ('e, 'a) outcome = Returned 'a | Raised "'e exn" | Exited int

text \<open>The effects: a submission \<^verbatim>\<open>client.query(query, job_config=cfg)\<close>, a prompt
  (\<^verbatim>\<open>input\<close> called with the text
  \<^verbatim>\<open>Estimated query cost: $<cost, 4 decimals>. Continue? (y/N): \<close>, recorded by the cost
  it shows), and a printed line.\<close>

datatype event = Submitted string "job_config option" | Prompt real | Printed string

type_synonym ('w, 'e) client = "string \<Rightarrow> job_config option \<Rightarrow> 'w \<Rightarrow> ('e + job) \<times> 'w"

record 'w world =
  warehouse :: 'w
  stdin :: "string list"
  trace :: "event list"

subsection \<open>The environment's operations\<close>

definition client_query ::
  "('w, 'e) client \<Rightarrow> string \<Rightarrow> job_config option \<Rightarrow> 'w world \<Rightarrow> ('e + job) \<times> 'w world" where
  "client_query client query cfg s =
     (case client query cfg (warehouse s) of
        (r, w') \<Rightarrow> (r, s\<lparr>warehouse := w', trace := trace s @ [Submitted query cfg]\<rparr>))"

text \<open>\<^verbatim>\<open>input(prompt)\<close>: shows the prompt, then takes the next line, or raises at end of input.\<close>

definition input :: "real \<Rightarrow> 'w world \<Rightarrow> ('e exn + string) \<times> 'w world" where
  "input shown s =
     (case stdin s of
        [] \<Rightarrow> (Inl EOFError, s\<lparr>trace := trace s @ [Prompt shown]\<rparr>)
      | l # ls \<Rightarrow> (Inr l, s\<lparr>stdin := ls, trace := trace s @ [Prompt shown]\<rparr>))"

definition print :: "string \<Rightarrow> 'w world \<Rightarrow> 'w world" where
  "print line s = s\<lparr>trace := trace s @ [Printed line]\<rparr>"

text \<open>\<^verbatim>\<open>str.lower\<close>, with a \<open>char\<close> read as the code point of the same number (U+0000 to
  U+00FF): the upper-case letters there are A to Z and U+00C0 to U+00DE without the
  multiplication sign U+00D7, each 32 below its lower-case letter. Code points above U+00FF
  are outside the model.\<close>

definition lower_char :: "char \<Rightarrow> char" where
  "lower_char c =
     (let n = (of_char c :: nat)
      in if (65 \<le> n \<and> n \<le> 90) \<or> (192 \<le> n \<and> n \<le> 222 \<and> n \<noteq> 215)
         then char_of (n + 32) else c)"

definition lower :: "string \<Rightarrow> string" where
  "lower s = map lower_char s"

subsection \<open>estimate\_query\_cost and run\_query\<close>

definition cost_per_tb_default :: real where
  "cost_per_tb_default = 6"

definition warning_threshold_default :: real where
  "warning_threshold_default = 0.001"

definition dry_run_config :: job_config where
  "dry_run_config = \<lparr>dry_run = Some True, use_query_cache = Some False\<rparr>"

definition estimate_query_cost ::
  "('w, 'e) client \<Rightarrow> string \<Rightarrow> real \<Rightarrow> 'w world \<Rightarrow> ('e, real) outcome \<times> 'w world" where
  "estimate_query_cost client query cost_per_tb s =
     (let config = dry_run_config
      in case client_query client query (Some config) s of
           (Inl e, s') \<Rightarrow> (Raised (ClientError e), s')
         | (Inr dry, s') \<Rightarrow>
             (case total_bytes_processed dry of
                None \<Rightarrow> (Raised TypeError, s')
              | Some b \<Rightarrow> (Returned ((real_of_int b / 1024 ^ 4) * cost_per_tb), s')))"

definition run_query ::
  "('w, 'e) client \<Rightarrow> string \<Rightarrow> job_config option \<Rightarrow> real \<Rightarrow> 'w world
     \<Rightarrow> ('e, job) outcome \<times> 'w world" where
  "run_query client query config warning_threshold s =
     (case estimate_query_cost client query 6.25 s of
        (Raised e, s1) \<Rightarrow> (Raised e, s1)
      | (Exited n, s1) \<Rightarrow> (Exited n, s1)
      | (Returned estimated_cost, s1) \<Rightarrow>
          (if estimated_cost > warning_threshold
           then (case input estimated_cost s1 of
                   (Inl e, s2) \<Rightarrow> (Raised e, s2)
                 | (Inr answer, s2) \<Rightarrow>
                     (if lower answer \<noteq> ''y''
                      then (Exited 0, print ''Query cancelled.'' s2)
                      else (case client_query client query config s2 of
                              (Inl e, s3) \<Rightarrow> (Raised (ClientError e), s3)
                            | (Inr j, s3) \<Rightarrow> (Returned j, s3))))
           else (case client_query client query config s1 of
                   (Inl e, s3) \<Rightarrow> (Raised (ClientError e), s3)
                 | (Inr j, s3) \<Rightarrow> (Returned j, s3))))"

text \<open>The effects a call added to the trace.\<close>

definition new_events :: "'w world \<Rightarrow> 'w world \<Rightarrow> event list" where
  "new_events s s' = drop (length (trace s)) (trace s')"

fun is_prompt :: "event \<Rightarrow> bool" where
  "is_prompt (Prompt c) = True"
| "is_prompt _ = False"

fun is_submitted :: "event \<Rightarrow> bool" where
  "is_submitted (Submitted q cfg) = True"
| "is_submitted _ = False"

subsection \<open>A fake warehouse for concrete runs\<close>

text \<open>
  A test double, not BigQuery: the state is the list of queries whose results are cached.
  The empty query is malformed. A query scans \<open>per_char\<close> bytes for each of its
  characters, unless it is answered from the cache (cache not disabled, query cached),
  which scans nothing. A real run caches its query; a dry run does not.
\<close>

definition fake_client :: "int \<Rightarrow> (string list, string) client" where
  "fake_client per_char query cfg cached =
     (if query = [] then (Inl ''syntax error'', cached)
      else
        (let dry = (case cfg of None \<Rightarrow> False | Some c \<Rightarrow> dry_run c = Some True);
             use_cache = (case cfg of None \<Rightarrow> True | Some c \<Rightarrow> use_query_cache c \<noteq> Some False);
             hit = (use_cache \<and> query \<in> set cached);
             bytes = (if hit then 0 else per_char * int (length query))
         in (Inr \<lparr>job_id = length cached, total_bytes_processed = Some bytes\<rparr>,
             if dry then cached else query # cached)))"

definition fresh :: "string list \<Rightarrow> string list world" where
  "fresh lines = \<lparr>warehouse = [], stdin = lines, trace = []\<rparr>"

text \<open>A second test double: every dry run reports \<open>bytes\<close>, every real run fails.\<close>

definition failing_client :: "int \<Rightarrow> (unit, string) client" where
  "failing_client bytes query cfg w =
     (if (case cfg of None \<Rightarrow> False | Some c \<Rightarrow> dry_run c = Some True)
      then (Inr \<lparr>job_id = 0, total_bytes_processed = Some bytes\<rparr>, w)
      else (Inl ''backend error'', w))"

text \<open>A terminal with one pending line, \<open>y\<close>, in front of the failing double.\<close>

definition confirming :: "unit world" where
  "confirming = \<lparr>warehouse = (), stdin = [''y''], trace = []\<rparr>"

section \<open>The exporter (src/export.py)\<close>

text \<open>
  Earth Engine is outside the repository. What the exporter uses of it is modelled as
  follows: a geometry is a point or a polygon; an image has a footprint
  (\<^verbatim>\<open>img.geometry()\<close>) and a dictionary of properties; a feature has a geometry and a
  dictionary of properties; a collection is the list of its elements and
  \<^verbatim>\<open>col.map(f)\<close> applies \<open>f\<close> to each. The catalog (which images a collection id
  names) and \<^verbatim>\<open>Geometry.centroid\<close> are parameters. The system properties that Earth
  Engine attaches to a mapped element (its index) are outside the model.
\<close>

datatype geometry = Point real real | Polygon "(real \<times> real) list"

datatype property = StringValue string | IntValue int | FloatValue real

record image =
  image_geometry :: geometry
  image_properties :: "string \<rightharpoonup> property"

record feature =
  feature_geometry :: geometry
  feature_properties :: "string \<rightharpoonup> property"

fun is_point :: "geometry \<Rightarrow> bool" where
  "is_point (Point x y) = True"
| "is_point (Polygon ps) = False"

text \<open>\<^verbatim>\<open>ee.Feature(geom)\<close>: a feature with that geometry and no properties.\<close>

definition Feature :: "geometry \<Rightarrow> feature" where
  "Feature geom = \<lparr>feature_geometry = geom, feature_properties = Map.empty\<rparr>"

text \<open>\<^verbatim>\<open>dest.copyProperties(source, properties)\<close>: the listed properties that the source
  has are set on the destination; everything else of the destination stays.\<close>

definition copyProperties :: "feature \<Rightarrow> image \<Rightarrow> string list \<Rightarrow> feature" where
  "copyProperties dest source props =
     dest\<lparr>feature_properties := feature_properties dest ++ (image_properties source |` set props)\<rparr>"

definition platforms :: "string list" where
  "platforms = [''LM01'', ''LM02'', ''LM03'', ''LM04'', ''LT04'', ''LT05'', ''LE07'', ''LC08'', ''LC09'']"

definition tiers :: "string list" where
  "tiers = [''T1'', ''T2'']"

definition collect_landsat_missions :: "(string \<Rightarrow> image list) \<Rightarrow> image list" where
  "collect_landsat_missions catalog =
     foldl (\<lambda>merged_collections platform.
              foldl (\<lambda>merged tier. merged @ catalog (''LANDSAT/'' @ platform @ ''/C02/'' @ tier))
                merged_collections tiers)
       [] platforms"

definition keep_cols :: "string list" where
  "keep_cols = [''SPACECRAFT_ID'', ''DATE_ACQUIRED'', ''WRS_PATH'', ''WRS_ROW'',
     ''COLLECTION_CATEGORY'', ''CLOUD_COVER_LAND'', ''CLOUD_COVER'', ''SUN_ELEVATION'']"

definition centroid :: "(geometry \<Rightarrow> geometry) \<Rightarrow> image \<Rightarrow> feature" where
  "centroid geometry_centroid img =
     copyProperties (Feature (geometry_centroid (image_geometry img))) img keep_cols"

definition images_to_points :: "(geometry \<Rightarrow> geometry) \<Rightarrow> image list \<Rightarrow> feature list" where
  "images_to_points geometry_centroid col = map (centroid geometry_centroid) col"

text \<open>Concrete data for runs: the mean of a polygon's vertices stands in for Earth Engine's
  centroid, and the catalog holds one Landsat 8 scene.\<close>

definition vertex_mean :: "geometry \<Rightarrow> geometry" where
  "vertex_mean g =
     (case g of
        Point x y \<Rightarrow> Point x y
      | Polygon ps \<Rightarrow>
          Point (sum_list (map fst ps) / real (length ps)) (sum_list (map snd ps) / real (length ps)))"

definition scene :: image where
  "scene = \<lparr>image_geometry = Polygon [(0, 0), (2, 0), (2, 2), (0, 2)],
     image_properties =
       [''SPACECRAFT_ID'' \<mapsto> StringValue ''LANDSAT_8'',
        ''DATE_ACQUIRED'' \<mapsto> StringValue ''2020-01-31'',
        ''WRS_PATH'' \<mapsto> IntValue 44,
        ''WRS_ROW'' \<mapsto> IntValue 34,
        ''COLLECTION_CATEGORY'' \<mapsto> StringValue ''T1'',
        ''CLOUD_COVER_LAND'' \<mapsto> FloatValue (- 1),
        ''CLOUD_COVER'' \<mapsto> FloatValue 12.5,
        ''SUN_ELEVATION'' \<mapsto> FloatValue 31,
        ''LANDSAT_SCENE_ID'' \<mapsto> StringValue ''LC80440342020031LGN00'']\<rparr>"

definition small_catalog :: "string \<Rightarrow> image list" where
  "small_catalog collection_id = (if collection_id = ''LANDSAT/LC08/C02/T1'' then [scene] else [])"

section \<open>Lemmas on the runner\<close>

subsection \<open>The affirmative answers\<close>

lemma char_of_121: "char_of (121::nat) = CHR ''y''"
  by (rule of_char_eqI [where ?'a = nat]) simp

lemma lower_char_y: "lower_char c = CHR ''y'' \<longleftrightarrow> c = CHR ''y'' \<or> c = CHR ''Y''"
proof
  assume a: "lower_char c = CHR ''y''"
  define n where "n = (of_char c :: nat)"
  have eq: "lower_char c =
    (if (65 \<le> n \<and> n \<le> 90) \<or> (192 \<le> n \<and> n \<le> 222 \<and> n \<noteq> 215)
     then char_of (n + 32) else c)"
    unfolding lower_char_def Let_def n_def ..
  show "c = CHR ''y'' \<or> c = CHR ''Y''"
  proof (cases "(65 \<le> n \<and> n \<le> 90) \<or> (192 \<le> n \<and> n \<le> 222 \<and> n \<noteq> 215)")
    case True
    with eq have "lower_char c = char_of (n + 32)"
      by (simp only: if_True)
    with a have "char_of (n + 32) = CHR ''y''"
      by simp
    then have "(of_char (char_of (n + 32)) :: nat) = 121"
      by simp
    then have "(n + 32) mod 256 = 121"
      by (simp only: of_char_of)
    with True have "n = 89"
      by auto
    then have "(of_char c :: nat) = of_char (CHR ''Y'')"
      by (simp add: n_def)
    then have "c = CHR ''Y''"
      by (simp only: of_char_eq_iff)
    then show ?thesis ..
  next
    case False
    with eq have "lower_char c = c"
      by (simp only: if_False)
    with a have "c = CHR ''y''"
      by simp
    then show ?thesis ..
  qed
next
  assume "c = CHR ''y'' \<or> c = CHR ''Y''"
  then show "lower_char c = CHR ''y''"
    by (auto simp: lower_char_def Let_def char_of_121)
qed

lemma lower_y: "lower a = ''y'' \<longleftrightarrow> a = ''y'' \<or> a = ''Y''"
proof (cases a)
  case Nil
  then show ?thesis by (simp add: lower_def)
next
  case (Cons c cs)
  then show ?thesis by (cases cs) (auto simp: lower_def lower_char_y)
qed

subsection \<open>estimate\_query\_cost, case by case\<close>

lemma estimate_raises:
  assumes "client query (Some dry_run_config) (warehouse s) = (Inl e, w1)"
  shows "estimate_query_cost client query p s =
    (Raised (ClientError e),
     s\<lparr>warehouse := w1, trace := trace s @ [Submitted query (Some dry_run_config)]\<rparr>)"
  using assms by (simp add: estimate_query_cost_def client_query_def)

lemma estimate_no_bytes:
  assumes "client query (Some dry_run_config) (warehouse s) = (Inr dry, w1)"
    and "total_bytes_processed dry = None"
  shows "estimate_query_cost client query p s =
    (Raised TypeError,
     s\<lparr>warehouse := w1, trace := trace s @ [Submitted query (Some dry_run_config)]\<rparr>)"
  using assms by (simp add: estimate_query_cost_def client_query_def)

lemma estimate_returns:
  assumes "client query (Some dry_run_config) (warehouse s) = (Inr dry, w1)"
    and "total_bytes_processed dry = Some b"
  shows "estimate_query_cost client query p s =
    (Returned (real_of_int b / 1024 ^ 4 * p),
     s\<lparr>warehouse := w1, trace := trace s @ [Submitted query (Some dry_run_config)]\<rparr>)"
  using assms by (simp add: estimate_query_cost_def client_query_def)

lemma estimate_trace:
  "trace (snd (estimate_query_cost client query p s)) =
     trace s @ [Submitted query (Some dry_run_config)]"
  by (simp add: estimate_query_cost_def client_query_def Let_def
      split: prod.splits sum.splits option.splits)

lemma estimate_stdin:
  "stdin (snd (estimate_query_cost client query p s)) = stdin s"
  by (simp add: estimate_query_cost_def client_query_def Let_def
      split: prod.splits sum.splits option.splits)

lemma estimate_not_exited:
  "fst (estimate_query_cost client query p s) \<noteq> Exited n"
  by (simp add: estimate_query_cost_def client_query_def Let_def
      split: prod.splits sum.splits option.splits)

lemma new_events_append: "trace s' = trace s @ es \<Longrightarrow> new_events s s' = es"
  by (simp add: new_events_def)

lemma estimate_world:
  assumes "estimate_query_cost client query p s = (r, s1)"
  shows "trace s1 = trace s @ [Submitted query (Some dry_run_config)]" and "stdin s1 = stdin s"
  using estimate_trace [of client query p s] estimate_stdin [of client query p s] assms
  by simp_all

subsection \<open>run\_query, branch by branch\<close>

lemma run_query_low:
  assumes "estimate_query_cost client query 6.25 s = (Returned c, s1)"
    and "\<not> c > th"
    and "client query config (warehouse s1) = (r, w2)"
  shows "run_query client query config th s =
    ((case r of Inl e \<Rightarrow> Raised (ClientError e) | Inr j \<Rightarrow> Returned j),
     s1\<lparr>warehouse := w2, trace := trace s1 @ [Submitted query config]\<rparr>)"
  using assms by (simp add: run_query_def client_query_def split: sum.splits)

lemma run_query_yes:
  assumes "estimate_query_cost client query 6.25 s = (Returned c, s1)"
    and "c > th"
    and "stdin s1 = a # rest"
    and "lower a = ''y''"
    and "client query config (warehouse s1) = (r, w2)"
  shows "run_query client query config th s =
    ((case r of Inl e \<Rightarrow> Raised (ClientError e) | Inr j \<Rightarrow> Returned j),
     s1\<lparr>warehouse := w2, stdin := rest, trace := trace s1 @ [Prompt c, Submitted query config]\<rparr>)"
  using assms by (simp add: run_query_def client_query_def input_def split: sum.splits)

lemma run_query_no:
  assumes "estimate_query_cost client query 6.25 s = (Returned c, s1)"
    and "c > th"
    and "stdin s1 = a # rest"
    and "lower a \<noteq> ''y''"
  shows "run_query client query config th s =
    (Exited 0,
     s1\<lparr>stdin := rest, trace := trace s1 @ [Prompt c, Printed ''Query cancelled.'']\<rparr>)"
  using assms by (simp add: run_query_def input_def print_def)

lemma run_query_eof:
  assumes "estimate_query_cost client query 6.25 s = (Returned c, s1)"
    and "c > th"
    and "stdin s1 = []"
  shows "run_query client query config th s =
    (Raised EOFError, s1\<lparr>trace := trace s1 @ [Prompt c]\<rparr>)"
  using assms by (simp add: run_query_def input_def)

lemma run_query_raised:
  assumes "estimate_query_cost client query 6.25 s = (Raised e, s1)"
  shows "run_query client query config th s = (Raised e, s1)"
  using assms by (simp add: run_query_def)

lemma prompts_of_run:
  assumes est: "estimate_query_cost client query 6.25 s = (Returned c, s1)"
  shows "filter is_prompt (new_events s (snd (run_query client query config th s)))
      = (if c > th then [Prompt c] else [])"
proof -
  note w = estimate_world [OF est]
  have ev: "new_events s (s1\<lparr>warehouse := wh, stdin := inp, trace := trace s1 @ es\<rparr>)
      = Submitted query (Some dry_run_config) # es" for wh inp es
    using w(1) by (simp add: new_events_def)
  obtain rr w2 where real: "client query config (warehouse s1) = (rr, w2)"
    by (cases "client query config (warehouse s1)")
  show ?thesis
  proof (cases "c > th")
    case False
    from run_query_low [OF est False real]
      ev [where wh = w2 and inp = "stdin s1" and es = "[Submitted query config]"] False
    show ?thesis by simp
  next
    case True
    show ?thesis
    proof (cases "stdin s1")
      case Nil
      from run_query_eof [OF est True Nil]
        ev [where wh = "warehouse s1" and inp = "stdin s1" and es = "[Prompt c]"] True
      show ?thesis by simp
    next
      case (Cons a rest)
      show ?thesis
      proof (cases "lower a = ''y''")
        case yes: True
        from run_query_yes [OF est True Cons yes real]
          ev [where wh = w2 and inp = rest and es = "[Prompt c, Submitted query config]"] True
        show ?thesis by simp
      next
        case no: False
        from run_query_no [OF est True Cons no]
          ev [where wh = "warehouse s1" and inp = rest
              and es = "[Prompt c, Printed ''Query cancelled.'']"] True
        show ?thesis by simp
      qed
    qed
  qed
qed

subsection \<open>Concrete runs on the fake warehouse\<close>

lemmas fake_defs = estimate_query_cost_def run_query_def client_query_def input_def print_def
  fake_client_def failing_client_def dry_run_config_def fresh_def warning_threshold_default_def
  cost_per_tb_default_def lower_y

lemma costly_estimate:
  "estimate_query_cost (fake_client (2 ^ 30)) ''SELECT 1'' 6.25 (fresh [a]) =
     (Returned (25 / 512),
      \<lparr>warehouse = [], stdin = [a], trace = [Submitted ''SELECT 1'' (Some dry_run_config)]\<rparr>)"
  by (simp add: fake_defs)

lemma costly_run_yes:
  "run_query (fake_client (2 ^ 30)) ''SELECT 1'' None warning_threshold_default (fresh [''Y'']) =
     (Returned \<lparr>job_id = 0, total_bytes_processed = Some (8 * 2 ^ 30)\<rparr>,
      \<lparr>warehouse = [''SELECT 1''], stdin = [],
       trace = [Submitted ''SELECT 1'' (Some dry_run_config), Prompt (25 / 512),
                Submitted ''SELECT 1'' None]\<rparr>)"
  by (simp add: fake_defs)

lemma costly_run_empty:
  "run_query (fake_client (2 ^ 30)) ''SELECT 1'' None warning_threshold_default (fresh [[]]) =
     (Exited 0,
      \<lparr>warehouse = [], stdin = [],
       trace = [Submitted ''SELECT 1'' (Some dry_run_config), Prompt (25 / 512),
                Printed ''Query cancelled.'']\<rparr>)"
  by (simp add: fake_defs)

lemma costly_above: "(25 / 512 :: real) > warning_threshold_default"
  by (simp add: warning_threshold_default_def)

lemma costly_run_no:
  "run_query (fake_client (2 ^ 30)) ''SELECT 1'' None warning_threshold_default (fresh [''n'']) =
     (Exited 0,
      \<lparr>warehouse = [], stdin = [],
       trace = [Submitted ''SELECT 1'' (Some dry_run_config), Prompt (25 / 512),
                Printed ''Query cancelled.'']\<rparr>)"
  by (simp add: fake_defs)

lemma malformed_dry:
  "fake_client 1 [] (Some dry_run_config) (warehouse (fresh [])) = (Inl ''syntax error'', [])"
  by (simp add: fake_client_def fresh_def)

lemma failing_estimate:
  "estimate_query_cost (failing_client (2 ^ 33)) ''SELECT 1'' 6.25 confirming =
     (Returned (25 / 512),
      \<lparr>warehouse = (), stdin = [''y''],
       trace = [Submitted ''SELECT 1'' (Some dry_run_config)]\<rparr>)"
  by (simp add: fake_defs confirming_def)

lemma failing_real:
  "failing_client (2 ^ 33) ''SELECT 1'' None w = (Inl ''backend error'', w)"
  by (simp add: failing_client_def)

lemma borderline_dry:
  "fake_client 180000000 ''q'' (Some dry_run_config) (warehouse (fresh [])) =
     (Inr \<lparr>job_id = 0, total_bytes_processed = Some 180000000\<rparr>, [])"
  by (simp add: fake_client_def dry_run_config_def fresh_def)

lemma cached_run:
  "run_query (fake_client (2 ^ 30)) ''SELECT 1'' None warning_threshold_default
     \<lparr>warehouse = [''SELECT 1''], stdin = [''y''], trace = []\<rparr> =
   (Returned \<lparr>job_id = 1, total_bytes_processed = Some 0\<rparr>,
    \<lparr>warehouse = [''SELECT 1'', ''SELECT 1''], stdin = [],
     trace = [Submitted ''SELECT 1'' (Some dry_run_config), Prompt (25 / 512),
              Submitted ''SELECT 1'' None]\<rparr>)"
  by (simp add: fake_defs)

section \<open>Properties of the runner\<close>

text \<open>
  C1. When the estimate that \<^verbatim>\<open>run_query\<close> computes is at most the warning threshold,
  the call adds exactly two effects: the dry run and one submission of the query with the
  caller's configuration. There is no prompt and no input line is consumed. The outcome is
  whatever that one submission gave: the job handle as the client returned it (nothing
  waits on it), or the client's error.
\<close>

theorem run_query_within_threshold:
  assumes "estimate_query_cost client query 6.25 s = (Returned c, s1)"
    and "c \<le> warning_threshold"
    and "run_query client query config warning_threshold s = (out, s')"
  shows "new_events s s' = [Submitted query (Some dry_run_config), Submitted query config]
    \<and> stdin s' = stdin s
    \<and> out = (case fst (client query config (warehouse s1)) of
               Inl e \<Rightarrow> Raised (ClientError e) | Inr j \<Rightarrow> Returned j)"
proof -
  obtain r w2 where real: "client query config (warehouse s1) = (r, w2)"
    by (cases "client query config (warehouse s1)")
  from assms(2) have low: "\<not> c > warning_threshold"
    by simp
  have tr: "trace s1 = trace s @ [Submitted query (Some dry_run_config)]"
    using estimate_trace [of client query "6.25" s] assms(1) by simp
  have inp: "stdin s1 = stdin s"
    using estimate_stdin [of client query "6.25" s] assms(1) by simp
  from run_query_low [OF assms(1) low real] assms(3)
  have out: "out = (case r of Inl e \<Rightarrow> Raised (ClientError e) | Inr j \<Rightarrow> Returned j)"
    and s': "s' = s1\<lparr>warehouse := w2, trace := trace s1 @ [Submitted query config]\<rparr>"
    by simp_all
  from s' tr have "trace s' = trace s @ [Submitted query (Some dry_run_config), Submitted query config]"
    by simp
  then have "new_events s s' = [Submitted query (Some dry_run_config), Submitted query config]"
    by (rule new_events_append)
  moreover from s' inp have "stdin s' = stdin s"
    by simp
  moreover from out real have "out = (case fst (client query config (warehouse s1)) of
               Inl e \<Rightarrow> Raised (ClientError e) | Inr j \<Rightarrow> Returned j)"
    by simp
  ultimately show ?thesis by simp
qed

lemma cheap_estimate: "estimate_query_cost (fake_client 1) ''SELECT 1'' 6.25 (fresh []) =
      (Returned (8 / 1024 ^ 4 * 6.25),
       \<lparr>warehouse = [], stdin = [], trace = [Submitted ''SELECT 1'' (Some dry_run_config)]\<rparr>)"
  by (simp add: estimate_query_cost_def client_query_def fake_client_def dry_run_config_def fresh_def)

lemma cheap_run: "run_query (fake_client 1) ''SELECT 1'' None warning_threshold_default (fresh []) =
      (Returned \<lparr>job_id = 0, total_bytes_processed = Some 8\<rparr>,
       \<lparr>warehouse = [''SELECT 1''], stdin = [],
        trace = [Submitted ''SELECT 1'' (Some dry_run_config), Submitted ''SELECT 1'' None]\<rparr>)"
  by (simp add: run_query_def estimate_query_cost_def client_query_def fake_client_def
      dry_run_config_def fresh_def warning_threshold_default_def)

theorem run_query_within_threshold_witness:
  "estimate_query_cost (fake_client 1) ''SELECT 1'' 6.25 (fresh []) =
      (Returned (8 / 1024 ^ 4 * 6.25),
       \<lparr>warehouse = [], stdin = [], trace = [Submitted ''SELECT 1'' (Some dry_run_config)]\<rparr>)
   \<and> (8 / 1024 ^ 4 * 6.25 :: real) \<le> warning_threshold_default
   \<and> run_query (fake_client 1) ''SELECT 1'' None warning_threshold_default (fresh []) =
      (Returned \<lparr>job_id = 0, total_bytes_processed = Some 8\<rparr>,
       \<lparr>warehouse = [''SELECT 1''], stdin = [],
        trace = [Submitted ''SELECT 1'' (Some dry_run_config), Submitted ''SELECT 1'' None]\<rparr>)
   \<and> new_events (fresh []) \<lparr>warehouse = [''SELECT 1''], stdin = [],
        trace = [Submitted ''SELECT 1'' (Some dry_run_config), Submitted ''SELECT 1'' None]\<rparr>
     = [Submitted ''SELECT 1'' (Some dry_run_config), Submitted ''SELECT 1'' None]"
proof -
  have le: "(8 / 1024 ^ 4 * 6.25 :: real) \<le> warning_threshold_default"
    by (simp add: warning_threshold_default_def)
  from run_query_within_threshold [OF cheap_estimate le cheap_run] cheap_estimate le cheap_run
  show ?thesis by simp
qed

text \<open>
  C2. When the estimate exceeds the threshold and an input line is there, the call prompts
  exactly once, showing the estimate, and consumes exactly that line. The line is
  affirmative when its lower-casing is \<open>y\<close>, that is, when it is \<open>y\<close> or \<open>Y\<close>.
  On an affirmative line the query is submitted once with the caller's configuration and
  the outcome is that submission's; on any other line, the empty one included, the process
  exits with status 0 after the dry run, the prompt and the message, with no submission.
\<close>

theorem run_query_above_threshold:
  assumes "estimate_query_cost client query 6.25 s = (Returned c, s1)"
    and "c > warning_threshold"
    and "stdin s = answer # rest"
    and "run_query client query config warning_threshold s = (out, s')"
  shows "filter is_prompt (new_events s s') = [Prompt c]
    \<and> stdin s' = rest
    \<and> (lower answer = ''y'') = (answer = ''y'' \<or> answer = ''Y'')
    \<and> (if lower answer = ''y''
       then new_events s s' =
              [Submitted query (Some dry_run_config), Prompt c, Submitted query config]
            \<and> out = (case fst (client query config (warehouse s1)) of
                       Inl e \<Rightarrow> Raised (ClientError e) | Inr j \<Rightarrow> Returned j)
       else new_events s s' =
              [Submitted query (Some dry_run_config), Prompt c, Printed ''Query cancelled.'']
            \<and> out = Exited 0)"
proof -
  note w = estimate_world [OF assms(1)]
  from w(2) assms(3) have inp: "stdin s1 = answer # rest"
    by simp
  show ?thesis
  proof (cases "lower answer = ''y''")
    case True
    obtain r w2 where real: "client query config (warehouse s1) = (r, w2)"
      by (cases "client query config (warehouse s1)")
    from run_query_yes [OF assms(1) assms(2) inp True real] assms(4)
    have out: "out = (case r of Inl e \<Rightarrow> Raised (ClientError e) | Inr j \<Rightarrow> Returned j)"
      and s': "s' = s1\<lparr>warehouse := w2, stdin := rest,
                        trace := trace s1 @ [Prompt c, Submitted query config]\<rparr>"
      by simp_all
    from s' w(1) have "trace s' =
        trace s @ [Submitted query (Some dry_run_config), Prompt c, Submitted query config]"
      by simp
    then have ev: "new_events s s' =
        [Submitted query (Some dry_run_config), Prompt c, Submitted query config]"
      by (rule new_events_append)
    from s' have "stdin s' = rest"
      by simp
    with ev out real True show ?thesis
      by (simp add: lower_y)
  next
    case False
    from run_query_no [OF assms(1) assms(2) inp False] assms(4)
    have out: "out = Exited 0"
      and s': "s' = s1\<lparr>stdin := rest,
                        trace := trace s1 @ [Prompt c, Printed ''Query cancelled.'']\<rparr>"
      by simp_all
    from s' w(1) have "trace s' =
        trace s @ [Submitted query (Some dry_run_config), Prompt c, Printed ''Query cancelled.'']"
      by simp
    then have ev: "new_events s s' =
        [Submitted query (Some dry_run_config), Prompt c, Printed ''Query cancelled.'']"
      by (rule new_events_append)
    from s' have "stdin s' = rest"
      by simp
    with ev out False show ?thesis
      by (simp add: lower_y)
  qed
qed

theorem run_query_above_threshold_witness:
  "estimate_query_cost (fake_client (2 ^ 30)) ''SELECT 1'' 6.25 (fresh [''Y'']) =
     (Returned (25 / 512),
      \<lparr>warehouse = [], stdin = [''Y''], trace = [Submitted ''SELECT 1'' (Some dry_run_config)]\<rparr>)
   \<and> (25 / 512 :: real) > warning_threshold_default
   \<and> stdin (fresh [''Y''] :: string list world) = [''Y'']
   \<and> run_query (fake_client (2 ^ 30)) ''SELECT 1'' None warning_threshold_default (fresh [''Y'']) =
     (Returned \<lparr>job_id = 0, total_bytes_processed = Some (8 * 2 ^ 30)\<rparr>,
      \<lparr>warehouse = [''SELECT 1''], stdin = [],
       trace = [Submitted ''SELECT 1'' (Some dry_run_config), Prompt (25 / 512),
                Submitted ''SELECT 1'' None]\<rparr>)
   \<and> filter is_prompt (new_events (fresh [''Y''])
        \<lparr>warehouse = [''SELECT 1''], stdin = [],
         trace = [Submitted ''SELECT 1'' (Some dry_run_config), Prompt (25 / 512),
                  Submitted ''SELECT 1'' None]\<rparr>) = [Prompt (25 / 512)]
   \<and> stdin (fresh [[]] :: string list world) = [[]]
   \<and> run_query (fake_client (2 ^ 30)) ''SELECT 1'' None warning_threshold_default (fresh [[]]) =
     (Exited 0,
      \<lparr>warehouse = [], stdin = [],
       trace = [Submitted ''SELECT 1'' (Some dry_run_config), Prompt (25 / 512),
                Printed ''Query cancelled.'']\<rparr>)
   \<and> filter is_prompt (new_events (fresh [[]])
        \<lparr>warehouse = [], stdin = [],
         trace = [Submitted ''SELECT 1'' (Some dry_run_config), Prompt (25 / 512),
                  Printed ''Query cancelled.'']\<rparr>) = [Prompt (25 / 512)]"
proof -
  have i1: "stdin (fresh [''Y''] :: string list world) = [''Y'']"
    and i2: "stdin (fresh [[]] :: string list world) = [[]]"
    by (simp_all add: fresh_def)
  note yes = run_query_above_threshold [OF costly_estimate costly_above i1 costly_run_yes]
  note no = run_query_above_threshold [OF costly_estimate costly_above i2 costly_run_empty]
  show ?thesis
    by (intro conjI costly_estimate costly_above i1 costly_run_yes yes [THEN conjunct1]
        i2 costly_run_empty no [THEN conjunct1])
qed

text \<open>
  C3. When the estimate exceeds the threshold and the answer is not affirmative, the call
  ends the process with exit status 0 (an exit, not a raised error), the last effect is the
  printed line \<open>Query cancelled.\<close>, and the only submission made is the dry run.
\<close>

theorem run_query_declined:
  assumes "estimate_query_cost client query 6.25 s = (Returned c, s1)"
    and "c > warning_threshold"
    and "stdin s = answer # rest"
    and "lower answer \<noteq> ''y''"
  shows "run_query client query config warning_threshold s =
      (Exited 0, s1\<lparr>stdin := rest, trace := trace s1 @ [Prompt c, Printed ''Query cancelled.'']\<rparr>)
    \<and> filter is_submitted (new_events s (snd (run_query client query config warning_threshold s)))
        = [Submitted query (Some dry_run_config)]
    \<and> Printed ''Query cancelled.''
        = last (new_events s (snd (run_query client query config warning_threshold s)))"
proof -
  note w = estimate_world [OF assms(1)]
  from w(2) assms(3) have inp: "stdin s1 = answer # rest"
    by simp
  note run = run_query_no [OF assms(1) assms(2) inp assms(4), of config]
  from w(1) have "trace (s1\<lparr>stdin := rest, trace := trace s1 @ [Prompt c, Printed ''Query cancelled.'']\<rparr>)
      = trace s @ [Submitted query (Some dry_run_config), Prompt c, Printed ''Query cancelled.'']"
    by simp
  then have "new_events s (s1\<lparr>stdin := rest, trace := trace s1 @ [Prompt c, Printed ''Query cancelled.'']\<rparr>)
      = [Submitted query (Some dry_run_config), Prompt c, Printed ''Query cancelled.'']"
    by (rule new_events_append)
  with run show ?thesis
    by simp
qed

theorem run_query_declined_witness:
  "estimate_query_cost (fake_client (2 ^ 30)) ''SELECT 1'' 6.25 (fresh [''n'']) =
     (Returned (25 / 512),
      \<lparr>warehouse = [], stdin = [''n''], trace = [Submitted ''SELECT 1'' (Some dry_run_config)]\<rparr>)
   \<and> (25 / 512 :: real) > warning_threshold_default
   \<and> stdin (fresh [''n''] :: string list world) = [''n'']
   \<and> lower ''n'' \<noteq> ''y''
   \<and> run_query (fake_client (2 ^ 30)) ''SELECT 1'' None warning_threshold_default (fresh [''n'']) =
     (Exited 0,
      \<lparr>warehouse = [], stdin = [],
       trace = [Submitted ''SELECT 1'' (Some dry_run_config), Prompt (25 / 512),
                Printed ''Query cancelled.'']\<rparr>)
   \<and> filter is_submitted (new_events (fresh [''n''])
        (snd (run_query (fake_client (2 ^ 30)) ''SELECT 1'' None warning_threshold_default
           (fresh [''n'']))))
      = [Submitted ''SELECT 1'' (Some dry_run_config)]"
proof -
  have i: "stdin (fresh [''n''] :: string list world) = [''n'']"
    by (simp add: fresh_def)
  have l: "lower ''n'' \<noteq> ''y''"
    by (simp add: lower_y)
  note no = run_query_declined [OF costly_estimate costly_above i l, of None]
  show ?thesis
    by (intro conjI costly_estimate costly_above i l costly_run_no
        no [THEN conjunct2, THEN conjunct1])
qed

text \<open>
  C4. When the dry run reports \<open>B\<close> bytes, the estimate at price \<open>P\<close> is
  \<open>B / 2 ^ 40 * P\<close> (in exact arithmetic); it is 0 exactly when \<open>B\<close> or \<open>P\<close> is 0, so
  a dry run that reports no bytes costs nothing.
\<close>

theorem estimate_query_cost_value:
  assumes "client query (Some dry_run_config) (warehouse s) = (Inr dry, w1)"
    and "total_bytes_processed dry = Some B"
  shows "fst (estimate_query_cost client query P s) = Returned (real_of_int B / 2 ^ 40 * P)
    \<and> (fst (estimate_query_cost client query P s) = Returned 0) = (B = 0 \<or> P = 0)"
proof -
  from assms have "estimate_query_cost client query P s =
    (Returned (real_of_int B / 1024 ^ 4 * P),
     s\<lparr>warehouse := w1, trace := trace s @ [Submitted query (Some dry_run_config)]\<rparr>)"
    by (rule estimate_returns)
  then show ?thesis
    by simp
qed

theorem estimate_query_cost_value_witness:
  "fake_client 0 ''SELECT 1'' (Some dry_run_config) (warehouse (fresh [])) =
     (Inr \<lparr>job_id = 0, total_bytes_processed = Some 0\<rparr>, [])
   \<and> total_bytes_processed \<lparr>job_id = 0, total_bytes_processed = Some 0\<rparr> = Some 0
   \<and> fst (estimate_query_cost (fake_client 0) ''SELECT 1'' 6 (fresh []))
       = Returned (real_of_int 0 / 2 ^ 40 * 6)
   \<and> fake_client (2 ^ 40) ''q'' (Some dry_run_config) (warehouse (fresh [])) =
     (Inr \<lparr>job_id = 0, total_bytes_processed = Some (2 ^ 40)\<rparr>, [])
   \<and> total_bytes_processed \<lparr>job_id = 0, total_bytes_processed = Some (2 ^ 40)\<rparr> = Some (2 ^ 40)
   \<and> fst (estimate_query_cost (fake_client (2 ^ 40)) ''q'' 6 (fresh []))
       = Returned (real_of_int (2 ^ 40) / 2 ^ 40 * 6)"
proof -
  have d0: "fake_client 0 ''SELECT 1'' (Some dry_run_config) (warehouse (fresh [])) =
     (Inr \<lparr>job_id = 0, total_bytes_processed = Some 0\<rparr>, [])"
    by (simp add: fake_client_def dry_run_config_def fresh_def)
  have d1: "fake_client (2 ^ 40) ''q'' (Some dry_run_config) (warehouse (fresh [])) =
     (Inr \<lparr>job_id = 0, total_bytes_processed = Some (2 ^ 40)\<rparr>, [])"
    by (simp add: fake_client_def dry_run_config_def fresh_def)
  have b0: "total_bytes_processed \<lparr>job_id = 0, total_bytes_processed = Some 0\<rparr> = Some 0"
    and b1: "total_bytes_processed \<lparr>job_id = 0, total_bytes_processed = Some (2 ^ 40)\<rparr> = Some (2 ^ 40)"
    by simp_all
  note z = estimate_query_cost_value [where client = "fake_client 0" and query = "''SELECT 1''"
      and s = "fresh []" and P = 6, OF d0 b0]
  note t = estimate_query_cost_value [where client = "fake_client (2 ^ 40)" and query = "''q''"
      and s = "fresh []" and P = 6, OF d1 b1]
  show ?thesis
    by (intro conjI d0 b0 d1 b1 z [THEN conjunct1] t [THEN conjunct1])
qed

text \<open>
  C5. The only effect of the estimator is one submission whose configuration has
  \<open>dry_run\<close> set and \<open>use_query_cache\<close> cleared. On a warehouse that such a
  submission leaves as it was (what a dry run is), the estimator leaves the warehouse as it
  was, and a second call gives the same outcome as the first.
\<close>

theorem estimate_query_cost_idempotent:
  assumes "\<forall>w. snd (client query (Some dry_run_config) w) = w"
  shows "new_events s (snd (estimate_query_cost client query p s))
        = [Submitted query (Some dry_run_config)]
    \<and> dry_run dry_run_config = Some True \<and> use_query_cache dry_run_config = Some False
    \<and> warehouse (snd (estimate_query_cost client query p s)) = warehouse s
    \<and> fst (estimate_query_cost client query p (snd (estimate_query_cost client query p s)))
        = fst (estimate_query_cost client query p s)"
proof -
  obtain r1 s1 where e1: "estimate_query_cost client query p s = (r1, s1)"
    by (cases "estimate_query_cost client query p s")
  have same: "client query (Some dry_run_config) w = (fst (client query (Some dry_run_config) w), w)" for w
    using assms by (metis prod.collapse)
  have wh: "warehouse (snd (estimate_query_cost client query p t)) = warehouse t" for t
    using same [of "warehouse t"]
    by (cases "fst (client query (Some dry_run_config) (warehouse t))")
       (simp_all add: estimate_query_cost_def client_query_def Let_def split: option.splits)
  have dep: "fst (estimate_query_cost client query p t) = fst (estimate_query_cost client query p u)"
    if "warehouse t = warehouse u" for t u
    using that
    by (simp add: estimate_query_cost_def client_query_def Let_def
        split: prod.splits sum.splits option.splits)
  from estimate_trace [of client query p s]
  have "new_events s (snd (estimate_query_cost client query p s))
        = [Submitted query (Some dry_run_config)]"
    by (rule new_events_append)
  moreover have "dry_run dry_run_config = Some True \<and> use_query_cache dry_run_config = Some False"
    by (simp add: dry_run_config_def)
  moreover note wh [of s] dep [OF wh [of s]]
  ultimately show ?thesis by simp
qed

theorem estimate_query_cost_idempotent_witness:
  "(\<forall>w. snd (fake_client (2 ^ 30) ''SELECT 1'' (Some dry_run_config) w) = w)
   \<and> fst (estimate_query_cost (fake_client (2 ^ 30)) ''SELECT 1'' 6
        \<lparr>warehouse = [''SELECT 1''], stdin = [], trace = []\<rparr>) = Returned (3 / 64)
   \<and> fst (estimate_query_cost (fake_client (2 ^ 30)) ''SELECT 1'' 6
        (snd (estimate_query_cost (fake_client (2 ^ 30)) ''SELECT 1'' 6
           \<lparr>warehouse = [''SELECT 1''], stdin = [], trace = []\<rparr>)))
      = fst (estimate_query_cost (fake_client (2 ^ 30)) ''SELECT 1'' 6
        \<lparr>warehouse = [''SELECT 1''], stdin = [], trace = []\<rparr>)"
proof -
  have h: "\<forall>w. snd (fake_client (2 ^ 30) ''SELECT 1'' (Some dry_run_config) w) = w"
    by (simp add: fake_client_def dry_run_config_def)
  have e: "fst (estimate_query_cost (fake_client (2 ^ 30)) ''SELECT 1'' 6
        \<lparr>warehouse = [''SELECT 1''], stdin = [], trace = []\<rparr>) = Returned (3 / 64)"
    by (simp add: fake_defs)
  note t = estimate_query_cost_idempotent [where client = "fake_client (2 ^ 30)"
      and query = "''SELECT 1''"
      and s = "\<lparr>warehouse = [''SELECT 1''], stdin = [], trace = []\<rparr>" and p = 6, OF h]
  show ?thesis
    by (intro conjI h e t [THEN conjunct2, THEN conjunct2, THEN conjunct2, THEN conjunct2])
qed

text \<open>
  C6. Nothing is retried or recovered. When the dry run raises, the estimator and the runner
  both end with that same error after that single submission, so the real query is never
  submitted. When the dry run succeeds and the real submission is reached (estimate within
  the threshold, or the answer \<open>y\<close> or \<open>Y\<close>) and raises, the runner ends with that same
  error, having submitted exactly twice: the dry run and the one real attempt.
\<close>

theorem failures_propagate:
  "(client query (Some dry_run_config) (warehouse s) = (Inl e, w1) \<longrightarrow>
      estimate_query_cost client query p s =
        (Raised (ClientError e),
         s\<lparr>warehouse := w1, trace := trace s @ [Submitted query (Some dry_run_config)]\<rparr>)
      \<and> run_query client query config th s =
        (Raised (ClientError e),
         s\<lparr>warehouse := w1, trace := trace s @ [Submitted query (Some dry_run_config)]\<rparr>))
   \<and> (estimate_query_cost client' query' 6.25 t = (Returned c, t1)
        \<and> (c \<le> th' \<or> (\<exists>rest. stdin t = ''y'' # rest) \<or> (\<exists>rest. stdin t = ''Y'' # rest))
        \<and> client' query' config' (warehouse t1) = (Inl e', w2) \<longrightarrow>
      fst (run_query client' query' config' th' t) = Raised (ClientError e')
      \<and> warehouse (snd (run_query client' query' config' th' t)) = w2
      \<and> filter is_submitted (new_events t (snd (run_query client' query' config' th' t)))
          = [Submitted query' (Some dry_run_config), Submitted query' config'])"
proof (intro conjI impI)
  assume dry: "client query (Some dry_run_config) (warehouse s) = (Inl e, w1)"
  then show est: "estimate_query_cost client query p s =
        (Raised (ClientError e),
         s\<lparr>warehouse := w1, trace := trace s @ [Submitted query (Some dry_run_config)]\<rparr>)"
    by (rule estimate_raises)
  from dry have "estimate_query_cost client query 6.25 s =
        (Raised (ClientError e),
         s\<lparr>warehouse := w1, trace := trace s @ [Submitted query (Some dry_run_config)]\<rparr>)"
    by (rule estimate_raises)
  then show "run_query client query config th s =
        (Raised (ClientError e),
         s\<lparr>warehouse := w1, trace := trace s @ [Submitted query (Some dry_run_config)]\<rparr>)"
    by (rule run_query_raised)
next
  assume a: "estimate_query_cost client' query' 6.25 t = (Returned c, t1)
        \<and> (c \<le> th' \<or> (\<exists>rest. stdin t = ''y'' # rest) \<or> (\<exists>rest. stdin t = ''Y'' # rest))
        \<and> client' query' config' (warehouse t1) = (Inl e', w2)"
  then have est: "estimate_query_cost client' query' 6.25 t = (Returned c, t1)"
    and real: "client' query' config' (warehouse t1) = (Inl e', w2)"
    by simp_all
  note w = estimate_world [OF est]
  have "fst (run_query client' query' config' th' t) = Raised (ClientError e')
      \<and> warehouse (snd (run_query client' query' config' th' t)) = w2
      \<and> filter is_submitted (new_events t (snd (run_query client' query' config' th' t)))
          = [Submitted query' (Some dry_run_config), Submitted query' config']"
  proof (cases "c > th'")
    case False
    note run = run_query_low [OF est False real]
    from w(1) have "trace (t1\<lparr>warehouse := w2, trace := trace t1 @ [Submitted query' config']\<rparr>)
        = trace t @ [Submitted query' (Some dry_run_config), Submitted query' config']"
      by simp
    then have "new_events t (t1\<lparr>warehouse := w2, trace := trace t1 @ [Submitted query' config']\<rparr>)
        = [Submitted query' (Some dry_run_config), Submitted query' config']"
      by (rule new_events_append)
    with run show ?thesis
      by simp
  next
    case True
    with a obtain ans rest where inp: "stdin t = ans # rest" and yes: "lower ans = ''y''"
      by (auto simp: lower_y)
    from inp w(2) have inp1: "stdin t1 = ans # rest"
      by simp
    note run = run_query_yes [OF est True inp1 yes real]
    from w(1) have "trace (t1\<lparr>warehouse := w2, stdin := rest,
           trace := trace t1 @ [Prompt c, Submitted query' config']\<rparr>)
        = trace t @ [Submitted query' (Some dry_run_config), Prompt c, Submitted query' config']"
      by simp
    then have "new_events t (t1\<lparr>warehouse := w2, stdin := rest,
           trace := trace t1 @ [Prompt c, Submitted query' config']\<rparr>)
        = [Submitted query' (Some dry_run_config), Prompt c, Submitted query' config']"
      by (rule new_events_append)
    with run show ?thesis
      by simp
  qed
  then show "fst (run_query client' query' config' th' t) = Raised (ClientError e')"
    and "warehouse (snd (run_query client' query' config' th' t)) = w2"
    and "filter is_submitted (new_events t (snd (run_query client' query' config' th' t)))
          = [Submitted query' (Some dry_run_config), Submitted query' config']"
    by simp_all
qed

theorem failures_propagate_witness:
  "fake_client 1 [] (Some dry_run_config) (warehouse (fresh [])) = (Inl ''syntax error'', [])
   \<and> run_query (fake_client 1) [] None warning_threshold_default (fresh []) =
       (Raised (ClientError ''syntax error''),
        (fresh [])\<lparr>warehouse := [],
          trace := trace (fresh [] :: string list world) @ [Submitted [] (Some dry_run_config)]\<rparr>)
   \<and> estimate_query_cost (failing_client (2 ^ 33)) ''SELECT 1'' 6.25 confirming =
       (Returned (25 / 512),
        \<lparr>warehouse = (), stdin = [''y''],
         trace = [Submitted ''SELECT 1'' (Some dry_run_config)]\<rparr>)
   \<and> stdin confirming = [''y'']
   \<and> fst (run_query (failing_client (2 ^ 33)) ''SELECT 1'' None warning_threshold_default
          confirming) = Raised (ClientError ''backend error'')
   \<and> filter is_submitted (new_events confirming
        (snd (run_query (failing_client (2 ^ 33)) ''SELECT 1'' None warning_threshold_default
           confirming)))
       = [Submitted ''SELECT 1'' (Some dry_run_config), Submitted ''SELECT 1'' None]"
proof -
  note t = failures_propagate [where client = "fake_client 1" and query = "[]"
      and s = "fresh []" and e = "''syntax error''" and ?w1.0 = "[]" and p = 6
      and config = None and th = warning_threshold_default
      and client' = "failing_client (2 ^ 33)" and query' = "''SELECT 1''" and t = confirming
      and c = "25 / 512" and th' = warning_threshold_default and config' = None
      and e' = "''backend error''" and ?w2.0 = "()"
      and ?t1.0 = "\<lparr>warehouse = (), stdin = [''y''],
         trace = [Submitted ''SELECT 1'' (Some dry_run_config)]\<rparr>"]
  have i: "stdin confirming = [''y'']"
    by (simp add: confirming_def)
  have h2: "estimate_query_cost (failing_client (2 ^ 33)) ''SELECT 1'' 6.25 confirming =
       (Returned (25 / 512),
        \<lparr>warehouse = (), stdin = [''y''],
         trace = [Submitted ''SELECT 1'' (Some dry_run_config)]\<rparr>)
     \<and> (25 / 512 \<le> warning_threshold_default \<or> (\<exists>rest. stdin confirming = ''y'' # rest)
          \<or> (\<exists>rest. stdin confirming = ''Y'' # rest))
     \<and> failing_client (2 ^ 33) ''SELECT 1'' None
          (warehouse \<lparr>warehouse = (), stdin = [''y''],
             trace = [Submitted ''SELECT 1'' (Some dry_run_config)]\<rparr>) = (Inl ''backend error'', ())"
    using failing_estimate i failing_real by simp
  note a = t [THEN conjunct1, THEN mp, OF malformed_dry]
  note b = t [THEN conjunct2, THEN mp, OF h2]
  show ?thesis
    by (intro conjI malformed_dry a [THEN conjunct2] failing_estimate i b [THEN conjunct1]
        b [THEN conjunct2, THEN conjunct2])
qed

text \<open>
  C9. The runner prices the dry run at 6.25 per \<open>2 ^ 40\<close> bytes, the estimator's default
  is 6. For a dry run reporting \<open>b \<noteq> 0\<close> bytes the default estimate is \<open>b / 2 ^ 40 * 6\<close>,
  the runner's estimate is 25/24 of it and differs from it, and it is the runner's estimate
  that gates the prompt and is shown in it.
\<close>

theorem run_query_price:
  assumes "client query (Some dry_run_config) (warehouse s) = (Inr dry, w1)"
    and "total_bytes_processed dry = Some b"
    and "b \<noteq> 0"
  shows "fst (estimate_query_cost client query cost_per_tb_default s)
        = Returned (real_of_int b / 2 ^ 40 * 6)
    \<and> fst (estimate_query_cost client query 6.25 s)
        = Returned (25 / 24 * (real_of_int b / 2 ^ 40 * 6))
    \<and> 25 / 24 * (real_of_int b / 2 ^ 40 * 6) \<noteq> real_of_int b / 2 ^ 40 * 6
    \<and> filter is_prompt (new_events s (snd (run_query client query config th s)))
        = (if 25 / 24 * (real_of_int b / 2 ^ 40 * 6) > th
           then [Prompt (25 / 24 * (real_of_int b / 2 ^ 40 * 6))] else [])"
proof -
  define s1 where "s1 = s\<lparr>warehouse := w1,
      trace := trace s @ [Submitted query (Some dry_run_config)]\<rparr>"
  have est: "estimate_query_cost client query p s = (Returned (real_of_int b / 1024 ^ 4 * p), s1)" for p
    unfolding s1_def using assms(1,2) by (rule estimate_returns)
  have c: "real_of_int b / 1024 ^ 4 * 6.25 = 25 / 24 * (real_of_int b / 2 ^ 40 * 6)"
    by simp
  from est [of "6.25"] c
  have est': "estimate_query_cost client query 6.25 s
      = (Returned (25 / 24 * (real_of_int b / 2 ^ 40 * 6)), s1)"
    by simp
  from est [of cost_per_tb_default]
  have "fst (estimate_query_cost client query cost_per_tb_default s)
        = Returned (real_of_int b / 2 ^ 40 * 6)"
    by (simp add: cost_per_tb_default_def)
  moreover from est' have "fst (estimate_query_cost client query 6.25 s)
        = Returned (25 / 24 * (real_of_int b / 2 ^ 40 * 6))"
    by simp
  moreover from assms(3) have "25 / 24 * (real_of_int b / 2 ^ 40 * 6) \<noteq> real_of_int b / 2 ^ 40 * 6"
    by simp
  moreover note prompts_of_run [OF est', of config th]
  ultimately show ?thesis
    by (intro conjI)
qed

theorem run_query_price_witness:
  "fake_client 180000000 ''q'' (Some dry_run_config) (warehouse (fresh [])) =
     (Inr \<lparr>job_id = 0, total_bytes_processed = Some 180000000\<rparr>, [])
   \<and> total_bytes_processed \<lparr>job_id = 0, total_bytes_processed = Some 180000000\<rparr>
       = Some 180000000
   \<and> (180000000 :: int) \<noteq> 0
   \<and> fst (estimate_query_cost (fake_client 180000000) ''q'' cost_per_tb_default (fresh []))
       = Returned (real_of_int 180000000 / 2 ^ 40 * 6)
   \<and> real_of_int 180000000 / 2 ^ 40 * 6 \<le> warning_threshold_default
   \<and> filter is_prompt (new_events (fresh [])
        (snd (run_query (fake_client 180000000) ''q'' None warning_threshold_default (fresh []))))
       = [Prompt (25 / 24 * (real_of_int 180000000 / 2 ^ 40 * 6))]"
proof -
  have b: "total_bytes_processed \<lparr>job_id = 0, total_bytes_processed = Some 180000000\<rparr>
       = Some 180000000"
    by simp
  have n: "(180000000 :: int) \<noteq> 0"
    by simp
  have below: "real_of_int 180000000 / 2 ^ 40 * 6 \<le> warning_threshold_default"
    by (simp add: warning_threshold_default_def)
  have above: "25 / 24 * (real_of_int 180000000 / 2 ^ 40 * 6) > warning_threshold_default"
    by (simp add: warning_threshold_default_def)
  note t = run_query_price [where client = "fake_client 180000000" and query = "''q''"
      and s = "fresh []" and config = None and th = warning_threshold_default,
      OF borderline_dry b n]
  from t [THEN conjunct2, THEN conjunct2, THEN conjunct2] above
  have p: "filter is_prompt (new_events (fresh [])
        (snd (run_query (fake_client 180000000) ''q'' None warning_threshold_default (fresh []))))
       = [Prompt (25 / 24 * (real_of_int 180000000 / 2 ^ 40 * 6))]"
    by (simp only: if_True)
  show ?thesis
    by (intro conjI borderline_dry b n t [THEN conjunct1] below p)
qed

text \<open>
  C10. Whatever happens in a call of the runner, its submissions are the dry run, with the
  estimator's own configuration, and then at most one more, with exactly the configuration
  the caller passed: the dry-run settings never reach the real submission.
\<close>

theorem real_submission_config:
  "filter is_submitted (new_events s (snd (run_query client query config th s)))
      = [Submitted query (Some dry_run_config)]
   \<or> filter is_submitted (new_events s (snd (run_query client query config th s)))
      = [Submitted query (Some dry_run_config), Submitted query config]"
proof -
  obtain r s1 where est: "estimate_query_cost client query 6.25 s = (r, s1)"
    by (cases "estimate_query_cost client query 6.25 s")
  note w = estimate_world [OF est]
  have ev: "new_events s (s1\<lparr>warehouse := wh, stdin := inp, trace := trace s1 @ es\<rparr>)
      = Submitted query (Some dry_run_config) # es" for wh inp es
    using w(1) by (simp add: new_events_def)
  have ev0: "new_events s s1 = [Submitted query (Some dry_run_config)]"
    using w(1) by (simp add: new_events_def)
  show ?thesis
  proof (cases r)
    case (Raised e)
    with est have "run_query client query config th s = (Raised e, s1)"
      by (simp add: run_query_raised)
    with ev0 show ?thesis by simp
  next
    case (Exited n)
    with est estimate_not_exited [of client query "6.25" s n] show ?thesis
      by simp
  next
    case (Returned c)
    with est have est': "estimate_query_cost client query 6.25 s = (Returned c, s1)"
      by simp
    obtain rr w2 where real: "client query config (warehouse s1) = (rr, w2)"
      by (cases "client query config (warehouse s1)")
    show ?thesis
    proof (cases "c > th")
      case False
      from run_query_low [OF est' False real] ev [where wh = w2 and inp = "stdin s1" and es = "[Submitted query config]"]
      show ?thesis by simp
    next
      case True
      show ?thesis
      proof (cases "stdin s1")
        case Nil
        from run_query_eof [OF est' True Nil] ev [where wh = "warehouse s1" and inp = "stdin s1" and es = "[Prompt c]"]
        show ?thesis by simp
      next
        case (Cons a rest)
        show ?thesis
        proof (cases "lower a = ''y''")
          case yes: True
          from run_query_yes [OF est' True Cons yes real]
            ev [where wh = w2 and inp = rest and es = "[Prompt c, Submitted query config]"]
          show ?thesis by simp
        next
          case no: False
          from run_query_no [OF est' True Cons no]
            ev [where wh = "warehouse s1" and inp = rest and es = "[Prompt c, Printed ''Query cancelled.'']"]
          show ?thesis by simp
        qed
      qed
    qed
  qed
qed

theorem real_submission_config_witness:
  "run_query (fake_client (2 ^ 30)) ''SELECT 1'' None warning_threshold_default
     \<lparr>warehouse = [''SELECT 1''], stdin = [''y''], trace = []\<rparr> =
   (Returned \<lparr>job_id = 1, total_bytes_processed = Some 0\<rparr>,
    \<lparr>warehouse = [''SELECT 1'', ''SELECT 1''], stdin = [],
     trace = [Submitted ''SELECT 1'' (Some dry_run_config), Prompt (25 / 512),
              Submitted ''SELECT 1'' None]\<rparr>)
   \<and> filter is_submitted (new_events \<lparr>warehouse = [''SELECT 1''], stdin = [''y''], trace = []\<rparr>
        (snd (run_query (fake_client (2 ^ 30)) ''SELECT 1'' None warning_threshold_default
           \<lparr>warehouse = [''SELECT 1''], stdin = [''y''], trace = []\<rparr>)))
      = [Submitted ''SELECT 1'' (Some dry_run_config), Submitted ''SELECT 1'' None]"
proof -
  have ne: "filter is_submitted (new_events \<lparr>warehouse = [''SELECT 1''], stdin = [''y''], trace = []\<rparr>
        (snd (run_query (fake_client (2 ^ 30)) ''SELECT 1'' None warning_threshold_default
           \<lparr>warehouse = [''SELECT 1''], stdin = [''y''], trace = []\<rparr>)))
      \<noteq> [Submitted ''SELECT 1'' (Some dry_run_config)]"
    unfolding cached_run snd_conv by (simp add: new_events_def)
  from real_submission_config [where client = "fake_client (2 ^ 30)" and query = "''SELECT 1''"
      and config = None and th = warning_threshold_default
      and s = "\<lparr>warehouse = [''SELECT 1''], stdin = [''y''], trace = []\<rparr>"] ne
  have "filter is_submitted (new_events \<lparr>warehouse = [''SELECT 1''], stdin = [''y''], trace = []\<rparr>
        (snd (run_query (fake_client (2 ^ 30)) ''SELECT 1'' None warning_threshold_default
           \<lparr>warehouse = [''SELECT 1''], stdin = [''y''], trace = []\<rparr>)))
      = [Submitted ''SELECT 1'' (Some dry_run_config), Submitted ''SELECT 1'' None]"
    by blast
  with cached_run show ?thesis
    by (intro conjI)
qed

section \<open>Lemmas on the exporter\<close>

lemma small_collect: "collect_landsat_missions small_catalog = [scene]"
  by (simp add: collect_landsat_missions_def platforms_def tiers_def small_catalog_def)

lemma centroid_geometry:
  "feature_geometry (centroid gc img) = gc (image_geometry img)"
  by (simp add: centroid_def copyProperties_def Feature_def)

lemma centroid_properties:
  "feature_properties (centroid gc img) = image_properties img |` set keep_cols"
  by (simp add: centroid_def copyProperties_def Feature_def)

lemma keep_cols_set:
  "set keep_cols =
     {''SPACECRAFT_ID'', ''DATE_ACQUIRED'', ''WRS_PATH'', ''WRS_ROW'',
      ''COLLECTION_CATEGORY'', ''CLOUD_COVER_LAND'', ''CLOUD_COVER'', ''SUN_ELEVATION''}"
  by (simp add: keep_cols_def)

lemma centroid_dom:
  assumes "set keep_cols \<subseteq> dom (image_properties img)"
  shows "dom (feature_properties (centroid gc img)) = set keep_cols"
  using assms by (auto simp: centroid_properties)

section \<open>Properties of the exporter\<close>

text \<open>
  C7. The rows correspond one to one, in order, to the images of the collection, and the
  geometry of each row is the centroid of its image's footprint. As Earth Engine's centroid
  of a geometry is a point, every row's geometry is a point, never a polygon.
\<close>

theorem exported_geometry_is_centroid:
  "map feature_geometry (images_to_points gc col) = map (\<lambda>img. gc (image_geometry img)) col
   \<and> ((\<forall>g. is_point (gc g)) \<longrightarrow>
        (\<forall>row \<in> set (images_to_points gc col). is_point (feature_geometry row)))"
  by (auto simp: images_to_points_def centroid_geometry)

theorem exported_geometry_is_centroid_witness:
  "(\<forall>g. is_point (vertex_mean g))
   \<and> images_to_points vertex_mean (collect_landsat_missions small_catalog) = [centroid vertex_mean scene]
   \<and> feature_geometry (centroid vertex_mean scene) = Point 1 1
   \<and> is_point (feature_geometry (centroid vertex_mean scene))"
proof -
  have pt: "\<forall>g. is_point (vertex_mean g)"
    by (simp add: vertex_mean_def split: geometry.splits)
  have rows: "images_to_points vertex_mean (collect_landsat_missions small_catalog)
      = [centroid vertex_mean scene]"
    by (simp add: small_collect images_to_points_def)
  have g: "feature_geometry (centroid vertex_mean scene) = Point 1 1"
    by (simp add: centroid_geometry scene_def vertex_mean_def)
  from exported_geometry_is_centroid [of vertex_mean "collect_landsat_missions small_catalog",
      THEN conjunct2, THEN mp, OF pt] rows
  have "is_point (feature_geometry (centroid vertex_mean scene))"
    by simp
  with pt rows g show ?thesis
    by (intro conjI)
qed

text \<open>
  C8. Row by row, in the order of the collection, every exported row carries its image's
  properties restricted to the eight listed names, with the values unchanged and nothing
  else, and has as geometry the centroid of its image's footprint. When every catalog entry
  has all eight, the property names of every row are exactly those eight; as Earth Engine's
  centroid of a geometry is a point, the geometry of every row is a point.
\<close>

theorem exported_row_properties:
  "map feature_properties (images_to_points gc col)
      = map (\<lambda>img. image_properties img |` set keep_cols) col
   \<and> map feature_geometry (images_to_points gc col)
      = map (\<lambda>img. gc (image_geometry img)) col
   \<and> set keep_cols =
       {''SPACECRAFT_ID'', ''DATE_ACQUIRED'', ''WRS_PATH'', ''WRS_ROW'',
        ''COLLECTION_CATEGORY'', ''CLOUD_COVER_LAND'', ''CLOUD_COVER'', ''SUN_ELEVATION''}
   \<and> ((\<forall>img \<in> set col. set keep_cols \<subseteq> dom (image_properties img)) \<longrightarrow>
        (\<forall>row \<in> set (images_to_points gc col). dom (feature_properties row) = set keep_cols))
   \<and> ((\<forall>g. is_point (gc g)) \<longrightarrow>
        (\<forall>row \<in> set (images_to_points gc col). is_point (feature_geometry row)))"
proof (intro conjI impI ballI)
  show "map feature_properties (images_to_points gc col)
      = map (\<lambda>img. image_properties img |` set keep_cols) col"
    by (simp add: images_to_points_def centroid_properties)
  show "map feature_geometry (images_to_points gc col)
      = map (\<lambda>img. gc (image_geometry img)) col"
    by (simp add: images_to_points_def centroid_geometry)
  show "set keep_cols =
       {''SPACECRAFT_ID'', ''DATE_ACQUIRED'', ''WRS_PATH'', ''WRS_ROW'',
        ''COLLECTION_CATEGORY'', ''CLOUD_COVER_LAND'', ''CLOUD_COVER'', ''SUN_ELEVATION''}"
    by (rule keep_cols_set)
next
  fix row
  assume all: "\<forall>img \<in> set col. set keep_cols \<subseteq> dom (image_properties img)"
    and row: "row \<in> set (images_to_points gc col)"
  from row obtain img where img: "img \<in> set col" and r: "row = centroid gc img"
    by (auto simp: images_to_points_def)
  from all img have "set keep_cols \<subseteq> dom (image_properties img)"
    by (rule bspec)
  then have "dom (feature_properties (centroid gc img)) = set keep_cols"
    by (rule centroid_dom)
  with r show "dom (feature_properties row) = set keep_cols"
    by (simp only:)
next
  fix row
  assume pt: "\<forall>g. is_point (gc g)"
    and row: "row \<in> set (images_to_points gc col)"
  from row obtain img where r: "row = centroid gc img"
    by (auto simp: images_to_points_def)
  from pt have "is_point (gc (image_geometry img))"
    by (rule spec)
  with r show "is_point (feature_geometry row)"
    by (simp only: centroid_geometry)
qed

lemma scene_has_columns: "set keep_cols \<subseteq> dom (image_properties scene)"
  by (simp add: keep_cols_def scene_def)

lemma small_rows:
  "images_to_points vertex_mean (collect_landsat_missions small_catalog)
     = [centroid vertex_mean scene]"
  by (simp add: small_collect images_to_points_def)

lemma vertex_mean_point: "\<forall>g. is_point (vertex_mean g)"
  by (simp add: vertex_mean_def split: geometry.splits)

theorem exported_row_properties_witness:
  "collect_landsat_missions small_catalog = [scene]
   \<and> set keep_cols \<subseteq> dom (image_properties scene)
   \<and> (\<forall>g. is_point (vertex_mean g))
   \<and> images_to_points vertex_mean (collect_landsat_missions small_catalog)
       = [centroid vertex_mean scene]
   \<and> dom (feature_properties (centroid vertex_mean scene)) = set keep_cols
   \<and> is_point (feature_geometry (centroid vertex_mean scene))
   \<and> feature_properties (centroid vertex_mean scene) ''CLOUD_COVER_LAND'' = Some (FloatValue (- 1))
   \<and> feature_properties (centroid vertex_mean scene) ''LANDSAT_SCENE_ID'' = None"
proof -
  note t = exported_row_properties [of vertex_mean "collect_landsat_missions small_catalog"]
  have cols: "\<forall>img \<in> set (collect_landsat_missions small_catalog).
      set keep_cols \<subseteq> dom (image_properties img)"
    unfolding small_collect using scene_has_columns by simp
  have mem: "centroid vertex_mean scene
      \<in> set (images_to_points vertex_mean (collect_landsat_missions small_catalog))"
    unfolding small_rows by simp
  note d = t [THEN conjunct2, THEN conjunct2, THEN conjunct2, THEN conjunct1, THEN mp, OF cols,
      THEN bspec, OF mem]
  note g = t [THEN conjunct2, THEN conjunct2, THEN conjunct2, THEN conjunct2, THEN mp,
      OF vertex_mean_point, THEN bspec, OF mem]
  from t [THEN conjunct1]
  have "[feature_properties (centroid vertex_mean scene)] = [image_properties scene |` set keep_cols]"
    by (simp only: small_collect images_to_points_def list.map)
  then have p: "feature_properties (centroid vertex_mean scene)
      = image_properties scene |` set keep_cols"
    by (simp only: list.inject)
  have ka: "''CLOUD_COVER_LAND'' \<in> set keep_cols"
    and kb: "''LANDSAT_SCENE_ID'' \<notin> set keep_cols"
    by (simp_all add: keep_cols_def)
  have va: "image_properties scene ''CLOUD_COVER_LAND'' = Some (FloatValue (- 1))"
    by (simp add: scene_def)
  have a: "feature_properties (centroid vertex_mean scene) ''CLOUD_COVER_LAND'' = Some (FloatValue (- 1))"
    unfolding p restrict_in [OF ka] by (rule va)
  have b: "feature_properties (centroid vertex_mean scene) ''LANDSAT_SCENE_ID'' = None"
    unfolding p using kb by (rule restrict_out)
  show ?thesis
    by (intro conjI small_collect scene_has_columns vertex_mean_point small_rows d g a b)
qed

end
